theory Spec2Isabelle
  imports Main "HOL-Library.Sublist"
begin

section \<open>Values exchanged with the agent runtime\<close>

text \<open>
  Payloads of tool calls and tool results are Python values (\<open>dict[str, Any]\<close>): \<open>None\<close>,
  booleans, integers, strings, lists, dictionaries with string keys, and \<open>JOpaque\<close>, any other
  object, for which \<open>json.dumps\<close> has no encoding (\<open>bytes\<close>, a set, an instance of a class),
  given by the name of its type. A dictionary is an association list in insertion order;
  \<open>map_of\<close> is the lookup. Floating point numbers are left out.
\<close>

datatype json =
    JNull
  | JBool bool
  | JInt int
  | JStr string
  | JList "json list"
  | JDict "(string \<times> json) list"
  | JOpaque string

text \<open>An \<open>Optional[str]\<close> field placed into a dictionary.\<close>

definition opt_str :: "string option \<Rightarrow> json" where
  "opt_str s = (case s of None \<Rightarrow> JNull | Some t \<Rightarrow> JStr t)"

text \<open>
  The classes of the agent library that \<open>api_app.py\<close> reads. Only the attributes the service
  touches are fields; each optional attribute is an \<open>option\<close>.
  \<open>FunctionCall\<close> declares \<open>id\<close>, \<open>args\<close> and \<open>name\<close>, in this order.
\<close>

record function_call =
  fc_id :: "string option"
  fc_args :: "(string \<times> json) list option"
  fc_name :: "string option"

record function_response =
  fr_name :: "string option"
  fr_response :: json

record part =
  part_text :: "string option"
  part_function_call :: "function_call option"
  part_function_response :: "function_response option"

record content =
  content_role :: "string option"
  content_parts :: "part list option"

record event_actions =
  escalate :: "bool option"

text \<open>
  \<open>ev_is_final_response\<close> is the value that the library method \<open>event.is_final_response()\<close>
  returns for the event: the method is not part of this repository, so its result is a
  field of the event.
\<close>

record event =
  ev_content :: "content option"
  ev_actions :: "event_actions option"
  ev_error_message :: "string option"
  ev_is_final_response :: bool

text \<open>
  A raised Python exception: whether it is an instance of \<open>Exception\<close> (the class that the
  handlers of the source catch; \<open>asyncio.CancelledError\<close>, \<open>KeyboardInterrupt\<close> and
  \<open>SystemExit\<close> derive from \<open>BaseException\<close> only), and the text of \<open>type(e)\<close> and of \<open>str(e)\<close>.
\<close>

record py_exception =
  exc_is_Exception :: bool
  exc_type :: string
  exc_str :: string

text \<open>
  One invocation of \<open>ROUTING_AGENT_RUNNER.run_async\<close> is the finite sequence of events its
  asynchronous iterator yields, followed by how the iterator ends: it is exhausted, or it
  raises an exception. An exception raised by the invocation itself is \<open>Raises\<close> after no
  event.
\<close>

datatype ending = Exhausted | Raises py_exception

type_synonym run = "event list \<times> ending"

type_synonym runner = "string \<Rightarrow> string \<Rightarrow> content \<Rightarrow> run"

text \<open>
  What leaves a handler when it does not return: the \<open>HTTPException\<close> it raised, or a Python
  exception it did not catch.
\<close>

datatype exn = HTTPException nat string | Uncaught py_exception

section \<open>Global configuration\<close>

definition APP_NAME :: string where "APP_NAME = ''routing_app''"
definition USER_ID :: string where "USER_ID = ''default_user''"
definition SESSION_ID :: string where "SESSION_ID = ''default_session''"

record ChatRequest =
  message :: string

record ChatResponse =
  cr_response :: string
  cr_tool_calls :: "json list option"
  cr_tool_responses :: "json list option"

record HealthResponse =
  status :: string
  service :: string
  version :: string

section \<open>Python truthiness of the inspected attributes\<close>

text \<open>\<open>event.content and event.content.parts\<close>: the content is set and its part list is non-empty.\<close>

definition has_parts :: "event \<Rightarrow> bool" where
  "has_parts e =
     (case ev_content e of
        None \<Rightarrow> False
      | Some c \<Rightarrow> (case content_parts c of None \<Rightarrow> False | Some ps \<Rightarrow> ps \<noteq> []))"

text \<open>\<open>event.content.parts\<close>, read only under the guard above.\<close>

definition parts_of :: "event \<Rightarrow> part list" where
  "parts_of e =
     (case ev_content e of
        None \<Rightarrow> []
      | Some c \<Rightarrow> (case content_parts c of None \<Rightarrow> [] | Some ps \<Rightarrow> ps))"

text \<open>\<open>event.actions and event.actions.escalate\<close>.\<close>

definition escalates :: "event \<Rightarrow> bool" where
  "escalates e =
     (case ev_actions e of None \<Rightarrow> False | Some a \<Rightarrow> escalate a = Some True)"

text \<open>\<open>event.error_message or 'No specific message.'\<close>.\<close>

definition error_message_or_default :: "event \<Rightarrow> string" where
  "error_message_or_default e =
     (case ev_error_message e of
        None \<Rightarrow> ''No specific message.''
      | Some m \<Rightarrow> (if m = [] then ''No specific message.'' else m))"

text \<open>\<open>[p.text for p in parts if p.text]\<close>.\<close>

fun texts :: "part list \<Rightarrow> string list" where
  "texts [] = []"
| "texts (p # ps) =
     (case part_text p of
        None \<Rightarrow> texts ps
      | Some t \<Rightarrow> (if t = [] then texts ps else t # texts ps))"

section \<open>Records built from a part\<close>

text \<open>
  \<open>function_call.model_dump(exclude_none=True)\<close>: the dictionary of the declared fields
  whose value is not \<open>None\<close>, in declaration order.
\<close>

definition model_dump_exclude_none :: "function_call \<Rightarrow> json" where
  "model_dump_exclude_none fc =
     JDict ((case fc_id fc of None \<Rightarrow> [] | Some i \<Rightarrow> [(''id'', JStr i)]) @
            (case fc_args fc of None \<Rightarrow> [] | Some a \<Rightarrow> [(''args'', JDict a)]) @
            (case fc_name fc of None \<Rightarrow> [] | Some n \<Rightarrow> [(''name'', JStr n)]))"

text \<open>
  The branch on \<open>isinstance(response_content, dict) and "response" in response_content\<close>,
  written twice in the source with the same body.
\<close>

definition formatted_response_data :: "json \<Rightarrow> json" where
  "formatted_response_data response_content =
     (case response_content of
        JDict d \<Rightarrow>
          (case map_of d ''response'' of
             Some v \<Rightarrow> v
           | None \<Rightarrow> response_content)
      | _ \<Rightarrow> response_content)"

definition tool_call :: "function_call \<Rightarrow> json" where
  "tool_call fc =
     JDict [(''name'', opt_str (fc_name fc)),
            (''arguments'', model_dump_exclude_none fc)]"

definition tool_response :: "function_response \<Rightarrow> json" where
  "tool_response fr =
     JDict [(''name'', opt_str (fr_name fr)),
            (''response'', formatted_response_data (fr_response fr))]"

section \<open>\<open>get_response_from_agent\<close> and \<open>/chat\<close>\<close>

text \<open>The inner \<open>for part in event.content.parts\<close> loop, appending to the two lists.\<close>

fun record_parts :: "part list \<Rightarrow> json list \<times> json list \<Rightarrow> json list \<times> json list" where
  "record_parts [] acc = acc"
| "record_parts (p # ps) (tool_calls, tool_responses) =
     (case part_function_call p of
        Some fc \<Rightarrow> record_parts ps (tool_calls @ [tool_call fc], tool_responses)
      | None \<Rightarrow>
          (case part_function_response p of
             Some fr \<Rightarrow> record_parts ps (tool_calls, tool_responses @ [tool_response fr])
           | None \<Rightarrow> record_parts ps (tool_calls, tool_responses)))"

text \<open>The text assigned to \<open>final_response\<close> at a final event.\<close>

definition final_response_text :: "event \<Rightarrow> string" where
  "final_response_text e =
     (if has_parts e then concat (texts (parts_of e))
      else if escalates e then ''Agent escalated: '' @ error_message_or_default e
      else [])"

record agent_result =
  response :: string
  tool_calls :: "json list"
  tool_responses :: "json list"

text \<open>
  The \<open>async for event in events_iterator\<close> loop with its \<open>break\<close>. The result is the
  dictionary returned after the loop, or the exception the iterator raised.
\<close>

fun consume_events ::
  "event list \<Rightarrow> ending \<Rightarrow> json list \<times> json list \<Rightarrow> py_exception + agent_result" where
  "consume_events [] Exhausted (tcs, trs) =
     Inr \<lparr>response = [], tool_calls = tcs, tool_responses = trs\<rparr>"
| "consume_events [] (Raises e) (tcs, trs) = Inl e"
| "consume_events (e # es) fin (tcs, trs) =
     (let (tcs', trs') = (if has_parts e then record_parts (parts_of e) (tcs, trs) else (tcs, trs))
      in if ev_is_final_response e
         then Inr \<lparr>response = final_response_text e, tool_calls = tcs', tool_responses = trs'\<rparr>
         else consume_events es fin (tcs', trs'))"

text \<open>The message handed to the runner: \<open>types.Content(role="user", parts=[types.Part(text=message)])\<close>.\<close>

definition new_message :: "string \<Rightarrow> content" where
  "new_message msg =
     \<lparr>content_role = Some ''user'',
      content_parts = Some [\<lparr>part_text = Some msg, part_function_call = None,
                             part_function_response = None\<rparr>]\<rparr>"

text \<open>
  A handler returns its outcome together with the lines it printed on standard output.
  The traceback that \<open>traceback.print_exc()\<close> writes to standard error is not modelled.
\<close>

definition get_response_from_agent :: "runner \<Rightarrow> string \<Rightarrow> (exn + agent_result) \<times> string list" where
  "get_response_from_agent run_async msg =
     (case run_async USER_ID SESSION_ID (new_message msg) of
        (events, fin) \<Rightarrow>
          (case consume_events events fin ([], []) of
             Inr result \<Rightarrow> (Inr result, [])
           | Inl e \<Rightarrow>
               (if exc_is_Exception e
                then (Inl (HTTPException 500 (''Error processing request: '' @ exc_str e)),
                      [''Error in get_response_from_agent (Type: '' @ exc_type e @ ''): '' @
                       exc_str e])
                else (Inl (Uncaught e), []))))"

text \<open>
  The endpoint: \<open>except HTTPException: raise\<close>, then \<open>except Exception\<close>; any other exception
  passes through.
\<close>

definition chat :: "runner \<Rightarrow> ChatRequest \<Rightarrow> (exn + ChatResponse) \<times> string list" where
  "chat run_async request =
     (case get_response_from_agent run_async (message request) of
        (Inr result, out) \<Rightarrow>
          (Inr \<lparr>cr_response = response result,
                cr_tool_calls = Some (tool_calls result),
                cr_tool_responses = Some (tool_responses result)\<rparr>, out)
      | (Inl (HTTPException code detail), out) \<Rightarrow> (Inl (HTTPException code detail), out)
      | (Inl (Uncaught e), out) \<Rightarrow>
          (if exc_is_Exception e
           then (Inl (HTTPException 500 (''Internal server error: '' @ exc_str e)),
                 out @ [''Error in chat endpoint: '' @ exc_str e])
           else (Inl (Uncaught e), out)))"

section \<open>\<open>/chat/stream\<close>\<close>

text \<open>
  \<open>json.dumps\<close> belongs to the standard library. It raises \<open>TypeError\<close> at the first object it
  has no encoding for, met in the order it writes the value; \<open>not_serializable\<close> finds the
  type name of that object. The text written for a value that can be encoded is the
  parameter \<open>encode\<close>.
\<close>

primrec not_serializable :: "json \<Rightarrow> string option"
  and not_serializable_list :: "json list \<Rightarrow> string option"
  and not_serializable_items :: "(string \<times> json) list \<Rightarrow> string option"
  and not_serializable_item :: "string \<times> json \<Rightarrow> string option" where
  "not_serializable JNull = None"
| "not_serializable (JBool b) = None"
| "not_serializable (JInt i) = None"
| "not_serializable (JStr s) = None"
| "not_serializable (JList xs) = not_serializable_list xs"
| "not_serializable (JDict kvs) = not_serializable_items kvs"
| "not_serializable (JOpaque ty) = Some ty"
| "not_serializable_list [] = None"
| "not_serializable_list (x # xs) =
     (case not_serializable x of Some ty \<Rightarrow> Some ty | None \<Rightarrow> not_serializable_list xs)"
| "not_serializable_items [] = None"
| "not_serializable_items (kv # kvs) =
     (case not_serializable_item kv of Some ty \<Rightarrow> Some ty | None \<Rightarrow> not_serializable_items kvs)"
| "not_serializable_item (k, v) = not_serializable v"

definition type_error :: "string \<Rightarrow> py_exception" where
  "type_error ty =
     \<lparr>exc_is_Exception = True, exc_type = ''<class 'TypeError'>'',
      exc_str = ''Object of type '' @ ty @ '' is not JSON serializable''\<rparr>"

definition json_dumps :: "(json \<Rightarrow> string) \<Rightarrow> json \<Rightarrow> py_exception + string" where
  "json_dumps encode v =
     (case not_serializable v of Some ty \<Rightarrow> Inl (type_error ty) | None \<Rightarrow> Inr (encode v))"

text \<open>
  What a stretch of the generator yields: the frames, and the exception that ended the
  stretch, if any.
\<close>

type_synonym yielded = "string list \<times> py_exception option"

text \<open>
  One \<open>yield f"data: {json.dumps(data)}\n\n"\<close> followed by the rest of the \<open>try\<close> block: when
  \<open>json.dumps\<close> raises, nothing is yielded and the rest does not run.
\<close>

definition yield_frame :: "(json \<Rightarrow> string) \<Rightarrow> json \<Rightarrow> yielded \<Rightarrow> yielded" where
  "yield_frame encode data rest =
     (case json_dumps encode data of
        Inl e \<Rightarrow> ([], Some e)
      | Inr s \<Rightarrow> ((''data: '' @ s @ [CHR 0x0A, CHR 0x0A]) # fst rest, snd rest))"

text \<open>The \<open>for part in event.content.parts\<close> loop of the generator, followed by \<open>rest\<close>.\<close>

fun stream_parts :: "(json \<Rightarrow> string) \<Rightarrow> part list \<Rightarrow> yielded \<Rightarrow> yielded" where
  "stream_parts encode [] rest = rest"
| "stream_parts encode (p # ps) rest =
     (case part_function_call p of
        Some fc \<Rightarrow>
          yield_frame encode
            (JDict [(''type'', JStr ''tool_call''),
                    (''name'', opt_str (fc_name fc)),
                    (''arguments'', model_dump_exclude_none fc)])
            (stream_parts encode ps rest)
      | None \<Rightarrow>
          (case part_function_response p of
             Some fr \<Rightarrow>
               yield_frame encode
                 (JDict [(''type'', JStr ''tool_response''),
                         (''name'', opt_str (fr_name fr)),
                         (''response'', formatted_response_data (fr_response fr))])
                 (stream_parts encode ps rest)
           | None \<Rightarrow> stream_parts encode ps rest))"

definition final_data :: "event \<Rightarrow> json" where
  "final_data e =
     JDict [(''type'', JStr ''final_response''), (''response'', JStr (final_response_text e))]"

definition error_data :: "string \<Rightarrow> json" where
  "error_data e = JDict [(''type'', JStr ''error''), (''error'', JStr e)]"

text \<open>
  The body of the \<open>try\<close> block of \<open>generate_stream\<close>: the \<open>async for\<close> loop with its \<open>break\<close>
  after the \<open>final_response\<close> frame.
\<close>

fun stream_events :: "(json \<Rightarrow> string) \<Rightarrow> event list \<Rightarrow> ending \<Rightarrow> yielded" where
  "stream_events encode [] Exhausted = ([], None)"
| "stream_events encode [] (Raises e) = ([], Some e)"
| "stream_events encode (e # es) fin =
     (let rest = (if ev_is_final_response e then yield_frame encode (final_data e) ([], None)
                  else stream_events encode es fin)
      in if has_parts e then stream_parts encode (parts_of e) rest else rest)"

text \<open>
  \<open>generate_stream\<close> with its \<open>except Exception\<close> handler, which yields the \<open>error\<close> frame: the
  frames yielded, and the exception that leaves the generator, if any.
\<close>

definition generate_stream :: "(json \<Rightarrow> string) \<Rightarrow> runner \<Rightarrow> ChatRequest \<Rightarrow> yielded" where
  "generate_stream encode run_async request =
     (case run_async USER_ID SESSION_ID (new_message (message request)) of
        (events, fin) \<Rightarrow>
          (case stream_events encode events fin of
             (frames, None) \<Rightarrow> (frames, None)
           | (frames, Some e) \<Rightarrow>
               (if exc_is_Exception e
                then (case yield_frame encode (error_data (exc_str e)) ([], None) of
                        (error_frames, x) \<Rightarrow> (frames @ error_frames, x))
                else (frames, Some e))))"

section \<open>\<open>/health\<close> and startup\<close>

definition health_check :: "(exn + HealthResponse) \<times> string list" where
  "health_check =
     (Inr \<lparr>status = ''healthy'', service = ''a2a-host-agent'', version = ''1.0.0''\<rparr>, [])"

text \<open>
  \<open>SESSION_SERVICE.create_session\<close> belongs to the agent library: the parameter gives, for
  the three identifiers, \<open>None\<close> when the call returns and the text of the exception when
  it raises.
\<close>

definition startup_event ::
  "(string \<Rightarrow> string \<Rightarrow> string \<Rightarrow> string option) \<Rightarrow> (exn + unit) \<times> string list" where
  "startup_event create_session =
     (case create_session APP_NAME USER_ID SESSION_ID of
        None \<Rightarrow> (Inr (), [''Creating ADK session...'', ''ADK session created successfully.''])
      | Some e \<Rightarrow> (Inr (), [''Creating ADK session...'', ''Error creating ADK session: '' @ e]))"

text \<open>
  The status the web framework answers with: 200 when the handler returns, the code of an
  \<open>HTTPException\<close>, and 500 for any other exception.
\<close>

definition status_code :: "exn + 'a \<Rightarrow> nat" where
  "status_code r =
     (case r of Inr _ \<Rightarrow> 200 | Inl (HTTPException code _) \<Rightarrow> code | Inl (Uncaught _) \<Rightarrow> 500)"

section \<open>Notions used to state the properties\<close>

text \<open>A runner that answers every invocation with the same run.\<close>

definition fixed_runner :: "run \<Rightarrow> runner" where
  "fixed_runner r user_id session_id msg = r"

text \<open>The events up to and including the first one flagged final.\<close>

definition upto_first_final :: "event list \<Rightarrow> event list" where
  "upto_first_final evs =
     takeWhile (\<lambda>e. \<not> ev_is_final_response e) evs @
     take 1 (dropWhile (\<lambda>e. \<not> ev_is_final_response e) evs)"

text \<open>All parts of a sequence of events, in arrival order.\<close>

definition received_parts :: "event list \<Rightarrow> part list" where
  "received_parts evs = concat (map parts_of evs)"

text \<open>
  The function calls of the function-call parts, and the function responses of the
  function-response parts, in order. The library documents that one \<open>Part\<close> sets exactly one
  of its payload attributes; should a part set both, the source's \<open>if\<close>/\<open>elif\<close> treats it
  as a function-call part.
\<close>

definition function_calls :: "part list \<Rightarrow> function_call list" where
  "function_calls ps = List.map_filter part_function_call ps"

definition function_responses :: "part list \<Rightarrow> function_response list" where
  "function_responses ps =
     List.map_filter part_function_response (filter (\<lambda>p. part_function_call p = None) ps)"

text \<open>Reading a key of a dictionary value, and the frames of one type.\<close>

definition dict_field :: "string \<Rightarrow> json \<Rightarrow> json option" where
  "dict_field k d = (case d of JDict kv \<Rightarrow> map_of kv k | _ \<Rightarrow> None)"

definition frames_of_type :: "string \<Rightarrow> json list \<Rightarrow> json list" where
  "frames_of_type t ds = filter (\<lambda>d. dict_field ''type'' d = Some (JStr t)) ds"

text \<open>The text of a frame that holds the dictionary \<open>d\<close>.\<close>

definition frame :: "(json \<Rightarrow> string) \<Rightarrow> json \<Rightarrow> string" where
  "frame encode d = ''data: '' @ encode d @ [CHR 0x0A, CHR 0x0A]"

text \<open>The dictionaries built for a list of parts, one for each tool call and tool result.\<close>

definition part_data :: "part \<Rightarrow> json option" where
  "part_data p =
     (case part_function_call p of
        Some fc \<Rightarrow>
          Some (JDict [(''type'', JStr ''tool_call''), (''name'', opt_str (fc_name fc)),
                       (''arguments'', model_dump_exclude_none fc)])
      | None \<Rightarrow>
          (case part_function_response p of
             Some fr \<Rightarrow>
               Some (JDict [(''type'', JStr ''tool_response''), (''name'', opt_str (fr_name fr)),
                            (''response'', formatted_response_data (fr_response fr))])
           | None \<Rightarrow> None))"

definition parts_data :: "part list \<Rightarrow> json list" where
  "parts_data ps = List.map_filter part_data ps"

text \<open>
  The dictionaries the generator is to serialize while it receives the events, in
  order: those of the parts up to and including the first final-flagged event, then the
  \<open>final_response\<close> dictionary of that event.
\<close>

definition planned_data :: "event list \<Rightarrow> json list" where
  "planned_data evs =
     parts_data (received_parts (upto_first_final evs)) @
     (case find ev_is_final_response evs of None \<Rightarrow> [] | Some f \<Rightarrow> [final_data f])"

text \<open>
  The dictionaries of the frames the stream consists of: the planned ones up to the first
  that cannot be serialized, and then the \<open>error\<close> dictionary of the exception that was
  caught, if one was.
\<close>

definition emitted_data :: "event list \<Rightarrow> ending \<Rightarrow> json list" where
  "emitted_data evs fin =
     (case not_serializable_list (planned_data evs) of
        Some ty \<Rightarrow>
          takeWhile (\<lambda>d. not_serializable d = None) (planned_data evs) @
          [error_data (exc_str (type_error ty))]
      | None \<Rightarrow>
          planned_data evs @
          (case find ev_is_final_response evs of
             Some f \<Rightarrow> []
           | None \<Rightarrow>
               (case fin of
                  Exhausted \<Rightarrow> []
                | Raises e \<Rightarrow> if exc_is_Exception e then [error_data (exc_str e)] else [])))"

text \<open>
  Yielding the frames of a list of dictionaries in order and then \<open>rest\<close>, in closed form:
  everything stops at the first dictionary that cannot be serialized.
\<close>

definition send :: "(json \<Rightarrow> string) \<Rightarrow> json list \<Rightarrow> yielded \<Rightarrow> yielded" where
  "send encode ds rest =
     (case not_serializable_list ds of
        Some ty \<Rightarrow>
          (map (frame encode) (takeWhile (\<lambda>d. not_serializable d = None) ds), Some (type_error ty))
      | None \<Rightarrow> (map (frame encode) ds @ fst rest, snd rest))"

text \<open>The reply as the words "textual content parts, else escalation, else empty" read.\<close>

definition all_text :: "part list \<Rightarrow> string" where
  "all_text ps = concat (map (\<lambda>p. case part_text p of None \<Rightarrow> [] | Some t \<Rightarrow> t) ps)"

definition carries_text :: "event \<Rightarrow> bool" where
  "carries_text e = (\<exists>p\<in>set (parts_of e). part_text p \<noteq> None \<and> part_text p \<noteq> Some [])"

definition reply_by_text_then_escalation :: "event \<Rightarrow> string" where
  "reply_by_text_then_escalation e =
     (if carries_text e then all_text (parts_of e)
      else if escalates e then ''Agent escalated: '' @ error_message_or_default e
      else [])"

text \<open>
  The value kept for a tool result: the entry under the key \<open>response\<close> when the payload is
  a mapping that has one, the whole payload otherwise.
\<close>

definition payload_kept :: "json \<Rightarrow> json" where
  "payload_kept p =
     (case p of
        JDict d \<Rightarrow> (case find (\<lambda>kv. fst kv = ''response'') d of Some kv \<Rightarrow> snd kv | None \<Rightarrow> p)
      | _ \<Rightarrow> p)"

section \<open>Example events\<close>

definition ex_call :: function_call where
  "ex_call = \<lparr>fc_id = Some ''call-1'', fc_args = Some [(''city'', JStr ''Paris'')],
              fc_name = Some ''get_weather''\<rparr>"

definition ex_result :: function_response where
  "ex_result = \<lparr>fr_name = Some ''get_weather'',
                fr_response = JDict [(''response'', JStr ''X''), (''other'', JStr ''Y'')]\<rparr>"

definition ex_plain_result :: function_response where
  "ex_plain_result = \<lparr>fr_name = Some ''exit_loop'', fr_response = JDict [(''status'', JStr ''done'')]\<rparr>"

definition text_part :: "string \<Rightarrow> part" where
  "text_part t = \<lparr>part_text = Some t, part_function_call = None, part_function_response = None\<rparr>"

definition call_part :: "function_call \<Rightarrow> part" where
  "call_part fc = \<lparr>part_text = None, part_function_call = Some fc, part_function_response = None\<rparr>"

definition result_part :: "function_response \<Rightarrow> part" where
  "result_part fr = \<lparr>part_text = None, part_function_call = None, part_function_response = Some fr\<rparr>"

definition content_event :: "part list \<Rightarrow> bool \<Rightarrow> event" where
  "content_event ps final =
     \<lparr>ev_content = Some \<lparr>content_role = Some ''model'', content_parts = Some ps\<rparr>,
      ev_actions = Some \<lparr>escalate = None\<rparr>, ev_error_message = None,
      ev_is_final_response = final\<rparr>"

definition ex_call_event :: event where
  "ex_call_event = content_event [call_part ex_call] False"

definition ex_result_event :: event where
  "ex_result_event = content_event [result_part ex_result] False"

definition ex_final_event :: event where
  "ex_final_event = content_event [text_part ''Sunny'', text_part '' in Paris''] True"

text \<open>A final event that carries a tool result and signals an escalation.\<close>

definition ex_tool_escalation_event :: event where
  "ex_tool_escalation_event =
     \<lparr>ev_content = Some \<lparr>content_role = Some ''user'',
                           content_parts = Some [result_part ex_plain_result]\<rparr>,
      ev_actions = Some \<lparr>escalate = Some True\<rparr>, ev_error_message = None,
      ev_is_final_response = True\<rparr>"

text \<open>A final event without content that signals an escalation and has no error message.\<close>

definition ex_escalation_event :: event where
  "ex_escalation_event =
     \<lparr>ev_content = None, ev_actions = Some \<lparr>escalate = Some True\<rparr>, ev_error_message = None,
      ev_is_final_response = True\<rparr>"

text \<open>A tool result whose payload holds a \<open>bytes\<close> object, and a final event after it.\<close>

definition ex_bytes_result :: function_response where
  "ex_bytes_result = \<lparr>fr_name = Some ''fetch'', fr_response = JDict [(''body'', JOpaque ''bytes'')]\<rparr>"

definition ex_bytes_event :: event where
  "ex_bytes_event = content_event [result_part ex_bytes_result] False"

definition runtime_error :: "string \<Rightarrow> py_exception" where
  "runtime_error msg =
     \<lparr>exc_is_Exception = True, exc_type = ''<class 'RuntimeError'>'', exc_str = msg\<rparr>"

text \<open>\<open>asyncio.CancelledError()\<close>, which derives from \<open>BaseException\<close>; its \<open>str\<close> is empty.\<close>

definition cancelled_error :: py_exception where
  "cancelled_error =
     \<lparr>exc_is_Exception = False, exc_type = ''<class 'asyncio.exceptions.CancelledError'>'',
      exc_str = []\<rparr>"

text \<open>
  A stand-in for the text that \<open>json.dumps\<close> writes, used in the examples only: it writes
  the type of a frame.
\<close>

definition type_tag :: "json \<Rightarrow> string" where
  "type_tag d = (case dict_field ''type'' d of Some (JStr t) \<Rightarrow> t | _ \<Rightarrow> [])"

definition ex_request :: ChatRequest where
  "ex_request = \<lparr>message = ''weather in Paris?''\<rparr>"

definition ex_call_data :: json where
  "ex_call_data =
     JDict [(''type'', JStr ''tool_call''), (''name'', JStr ''get_weather''),
            (''arguments'', JDict [(''id'', JStr ''call-1''),
                                   (''args'', JDict [(''city'', JStr ''Paris'')]),
                                   (''name'', JStr ''get_weather'')])]"

definition ex_result_data :: json where
  "ex_result_data =
     JDict [(''type'', JStr ''tool_response''), (''name'', JStr ''get_weather''),
            (''response'', JStr ''X'')]"

definition ex_call_record :: json where
  "ex_call_record =
     JDict [(''name'', JStr ''get_weather''),
            (''arguments'', JDict [(''id'', JStr ''call-1''),
                                   (''args'', JDict [(''city'', JStr ''Paris'')]),
                                   (''name'', JStr ''get_weather'')])]"

definition ex_result_record :: json where
  "ex_result_record = JDict [(''name'', JStr ''get_weather''), (''response'', JStr ''X'')]"

definition ex_run :: run where
  "ex_run =
     ([ex_call_event, ex_result_event, ex_final_event, ex_call_event],
      Raises (runtime_error ''late''))"

definition ex_failing_run :: run where
  "ex_failing_run = ([ex_call_event, ex_result_event], Raises (runtime_error ''connection lost''))"

definition ex_cancelled_run :: run where
  "ex_cancelled_run = ([ex_call_event, ex_result_event], Raises cancelled_error)"

definition ex_bytes_run :: run where
  "ex_bytes_run = ([ex_call_event, ex_bytes_event, ex_final_event], Exhausted)"

definition ex_unfinished_run :: run where
  "ex_unfinished_run = ([ex_call_event, ex_result_event], Exhausted)"

section \<open>The loops in closed form\<close>

lemma parts_of_no_parts: "\<not> has_parts e \<Longrightarrow> parts_of e = []"
  by (auto simp: has_parts_def parts_of_def split: option.splits)

lemma has_parts_iff: "has_parts e \<longleftrightarrow> parts_of e \<noteq> []"
  by (auto simp: has_parts_def parts_of_def split: option.splits)

lemma concat_texts: "concat (texts ps) = all_text ps"
  by (induction ps) (simp_all add: all_text_def split: option.splits)

lemma function_calls_simps:
  "function_calls [] = []"
  "function_calls (p # ps) =
     (case part_function_call p of Some fc \<Rightarrow> fc # function_calls ps | None \<Rightarrow> function_calls ps)"
  by (simp_all add: function_calls_def split: option.splits)

lemma function_responses_simps:
  "function_responses [] = []"
  "function_responses (p # ps) =
     (case part_function_call p of
        Some fc \<Rightarrow> function_responses ps
      | None \<Rightarrow> (case part_function_response p of
                   Some fr \<Rightarrow> fr # function_responses ps
                 | None \<Rightarrow> function_responses ps))"
  by (simp_all add: function_responses_def split: option.splits)

lemma function_calls_append: "function_calls (ps @ qs) = function_calls ps @ function_calls qs"
  by (induction ps) (simp_all add: function_calls_simps split: option.splits)

lemma function_responses_append:
  "function_responses (ps @ qs) = function_responses ps @ function_responses qs"
  by (induction ps) (simp_all add: function_responses_simps split: option.splits)

lemma record_parts_eq:
  "record_parts ps (tcs, trs) =
     (tcs @ map tool_call (function_calls ps), trs @ map tool_response (function_responses ps))"
  by (induction ps arbitrary: tcs trs)
     (simp_all add: function_calls_simps function_responses_simps split: option.splits)

lemma upto_first_final_simps:
  "upto_first_final [] = []"
  "upto_first_final (e # es) = (if ev_is_final_response e then [e] else e # upto_first_final es)"
  by (simp_all add: upto_first_final_def)

lemma received_parts_simps:
  "received_parts [] = []"
  "received_parts (e # es) = parts_of e @ received_parts es"
  by (simp_all add: received_parts_def)

lemma find_final_None:
  "find ev_is_final_response evs = None \<longleftrightarrow> (\<forall>e\<in>set evs. \<not> ev_is_final_response e)"
  by (auto simp: find_None_iff)

lemma upto_first_final_no_final:
  "\<forall>e\<in>set evs. \<not> ev_is_final_response e \<Longrightarrow> upto_first_final evs = evs"
  by (induction evs) (simp_all add: upto_first_final_simps)

lemma upto_first_final_split:
  "\<forall>e\<in>set pre. \<not> ev_is_final_response e \<Longrightarrow> ev_is_final_response f \<Longrightarrow>
   upto_first_final (pre @ f # post) = pre @ [f]"
  by (simp add: upto_first_final_def takeWhile_append2 dropWhile_append2)

lemma find_final_split:
  "\<forall>e\<in>set pre. \<not> ev_is_final_response e \<Longrightarrow> ev_is_final_response f \<Longrightarrow>
   find ev_is_final_response (pre @ f # post) = Some f"
  by (induction pre) simp_all

lemma consume_events_eq:
  "consume_events evs fin (tcs, trs) =
     (case find ev_is_final_response evs of
        Some f \<Rightarrow>
          Inr \<lparr>response = final_response_text f,
               tool_calls = tcs @ map tool_call (function_calls (received_parts (upto_first_final evs))),
               tool_responses =
                 trs @ map tool_response (function_responses (received_parts (upto_first_final evs)))\<rparr>
      | None \<Rightarrow>
          (case fin of
             Exhausted \<Rightarrow>
               Inr \<lparr>response = [],
                    tool_calls = tcs @ map tool_call (function_calls (received_parts evs)),
                    tool_responses = trs @ map tool_response (function_responses (received_parts evs))\<rparr>
           | Raises e \<Rightarrow> Inl e))"
proof (induction evs arbitrary: tcs trs)
  case Nil
  show ?case
    by (cases fin)
       (simp_all add: received_parts_simps function_calls_simps function_responses_simps
          upto_first_final_simps)
next
  case (Cons e es)
  show ?case
  proof (cases "has_parts e")
    case True
    then show ?thesis
      by (simp add: Cons.IH record_parts_eq upto_first_final_simps received_parts_simps
            function_calls_append function_responses_append split: option.splits ending.splits)
  next
    case False
    then show ?thesis
      by (simp add: Cons.IH parts_of_no_parts upto_first_final_simps received_parts_simps
            function_calls_simps function_responses_simps
            function_calls_append function_responses_append split: option.splits ending.splits)
  qed
qed

lemma agent_returns:
  assumes "run_async USER_ID SESSION_ID (new_message msg) = (evs, fin)"
      and "fin = Exhausted \<or> (\<exists>e\<in>set evs. ev_is_final_response e)"
  shows "get_response_from_agent run_async msg =
           (Inr \<lparr>response = (case find ev_is_final_response evs of
                                None \<Rightarrow> [] | Some f \<Rightarrow> final_response_text f),
                 tool_calls = map tool_call (function_calls (received_parts (upto_first_final evs))),
                 tool_responses =
                   map tool_response (function_responses (received_parts (upto_first_final evs)))\<rparr>,
            [])"
proof (cases "find ev_is_final_response evs")
  case None
  then have nf: "\<forall>e\<in>set evs. \<not> ev_is_final_response e" by (simp add: find_final_None)
  with assms(2) have "fin = Exhausted" by blast
  with None nf show ?thesis
    by (simp add: get_response_from_agent_def assms(1) consume_events_eq
          upto_first_final_no_final)
next
  case (Some f)
  then show ?thesis
    by (simp add: get_response_from_agent_def assms(1) consume_events_eq)
qed

lemma agent_raises:
  assumes "run_async USER_ID SESSION_ID (new_message msg) = (evs, Raises e)"
      and "\<forall>ev\<in>set evs. \<not> ev_is_final_response ev"
  shows "get_response_from_agent run_async msg =
           (if exc_is_Exception e
            then (Inl (HTTPException 500 (''Error processing request: '' @ exc_str e)),
                  [''Error in get_response_from_agent (Type: '' @ exc_type e @ ''): '' @ exc_str e])
            else (Inl (Uncaught e), []))"
proof -
  from assms(2) have "find ev_is_final_response evs = None" by (simp add: find_final_None)
  then show ?thesis
    by (simp add: get_response_from_agent_def assms(1) consume_events_eq)
qed

section \<open>The generator in closed form\<close>

lemma parts_data_simps:
  "parts_data [] = []"
  "parts_data (p # ps) = (case part_data p of None \<Rightarrow> parts_data ps | Some d \<Rightarrow> d # parts_data ps)"
  by (simp_all add: parts_data_def split: option.splits)

lemma parts_data_append: "parts_data (ps @ qs) = parts_data ps @ parts_data qs"
  by (induction ps) (simp_all add: parts_data_simps split: option.splits)

lemma not_serializable_list_append:
  "not_serializable_list (xs @ ys) =
     (case not_serializable_list xs of Some ty \<Rightarrow> Some ty | None \<Rightarrow> not_serializable_list ys)"
  by (induction xs) (simp_all split: option.splits)

lemma not_serializable_list_None:
  "not_serializable_list xs = None \<longleftrightarrow> (\<forall>x\<in>set xs. not_serializable x = None)"
  by (induction xs) (auto split: option.splits)

lemma takeWhile_serializable:
  "not_serializable_list xs = None \<Longrightarrow> takeWhile (\<lambda>d. not_serializable d = None) xs = xs"
  by (simp add: not_serializable_list_None)

lemma not_serializable_final_data: "not_serializable (final_data f) = None"
  by (simp add: final_data_def)

lemma not_serializable_error_data: "not_serializable (error_data s) = None"
  by (simp add: error_data_def)

lemma yield_frame_eq:
  "yield_frame encode d rest =
     (case not_serializable d of
        Some ty \<Rightarrow> ([], Some (type_error ty))
      | None \<Rightarrow> (frame encode d # fst rest, snd rest))"
  by (simp add: yield_frame_def json_dumps_def frame_def split: option.splits)

lemma send_Nil: "send encode [] rest = rest"
  by (simp add: send_def)

lemma send_Cons: "send encode (d # ds) rest = yield_frame encode d (send encode ds rest)"
  by (simp add: send_def yield_frame_eq split: option.splits)

lemma send_append: "send encode (ds @ es) rest = send encode ds (send encode es rest)"
  by (induction ds) (simp_all add: send_Nil send_Cons)

lemma stream_parts_send: "stream_parts encode ps rest = send encode (parts_data ps) rest"
  by (induction ps)
     (simp_all add: send_Nil send_Cons parts_data_simps part_data_def split: option.splits)

lemma planned_data_simps:
  "planned_data [] = []"
  "planned_data (e # es) =
     (if ev_is_final_response e then parts_data (parts_of e) @ [final_data e]
      else parts_data (parts_of e) @ planned_data es)"
  by (simp_all add: planned_data_def upto_first_final_simps received_parts_simps
        parts_data_simps parts_data_append)

lemma stream_events_send:
  "stream_events encode evs fin =
     send encode (planned_data evs)
       ([], case find ev_is_final_response evs of
              Some f \<Rightarrow> None
            | None \<Rightarrow> (case fin of Exhausted \<Rightarrow> None | Raises e \<Rightarrow> Some e))"
proof (induction evs)
  case Nil
  show ?case by (cases fin) (simp_all add: planned_data_simps send_Nil)
next
  case (Cons e es)
  show ?case
  proof (cases "has_parts e")
    case True
    then show ?thesis
      by (simp add: Cons.IH stream_parts_send planned_data_simps send_append send_Cons send_Nil)
  next
    case False
    then show ?thesis
      by (simp add: Cons.IH parts_of_no_parts planned_data_simps parts_data_simps
            send_append send_Cons send_Nil)
  qed
qed

lemma generate_stream_eq:
  assumes "run_async USER_ID SESSION_ID (new_message (message request)) = (evs, fin)"
  shows "generate_stream encode run_async request =
           (map (frame encode) (emitted_data evs fin),
            case not_serializable_list (planned_data evs) of
              Some ty \<Rightarrow> None
            | None \<Rightarrow>
                (case find ev_is_final_response evs of
                   Some f \<Rightarrow> None
                 | None \<Rightarrow>
                     (case fin of
                        Exhausted \<Rightarrow> None
                      | Raises e \<Rightarrow> if exc_is_Exception e then None else Some e)))"
  by (simp add: generate_stream_def assms stream_events_send send_def emitted_data_def
        yield_frame_eq not_serializable_error_data type_error_def
        split: option.splits ending.splits)

section \<open>Frames by type\<close>

lemma frames_of_type_simps:
  "frames_of_type t [] = []"
  "frames_of_type t (d # ds) =
     (if dict_field ''type'' d = Some (JStr t) then d # frames_of_type t ds
      else frames_of_type t ds)"
  by (simp_all add: frames_of_type_def)

lemma frames_of_type_append:
  "frames_of_type t (ds @ es) = frames_of_type t ds @ frames_of_type t es"
  by (simp add: frames_of_type_def)

lemma parts_data_types:
  "d \<in> set (parts_data ps) \<Longrightarrow>
   dict_field ''type'' d = Some (JStr ''tool_call'') \<or>
   dict_field ''type'' d = Some (JStr ''tool_response'')"
  by (induction ps)
     (auto simp: parts_data_simps part_data_def dict_field_def split: option.splits)

lemma parts_data_no_final: "frames_of_type ''final_response'' (parts_data ps) = []"
  by (auto simp: frames_of_type_def filter_empty_conv dest: parts_data_types)

lemma parts_data_no_error: "frames_of_type ''error'' (parts_data ps) = []"
  by (auto simp: frames_of_type_def filter_empty_conv dest: parts_data_types)

lemma frames_of_type_final_data:
  "frames_of_type t [final_data f] = (if t = ''final_response'' then [final_data f] else [])"
  by (auto simp: frames_of_type_def final_data_def dict_field_def)

lemma frames_of_type_error_data:
  "frames_of_type t [error_data e] = (if t = ''error'' then [error_data e] else [])"
  by (auto simp: frames_of_type_def error_data_def dict_field_def)

lemma planned_tool_frames:
  "t \<noteq> ''final_response'' \<Longrightarrow>
   frames_of_type t (planned_data evs) =
   frames_of_type t (parts_data (received_parts (upto_first_final evs)))"
  by (simp add: planned_data_def frames_of_type_append frames_of_type_final_data
        frames_of_type_simps(1) split: option.splits)

lemma emitted_tool_frames:
  "t \<noteq> ''error'' \<Longrightarrow>
   frames_of_type t (emitted_data evs fin) =
   frames_of_type t (takeWhile (\<lambda>d. not_serializable d = None) (planned_data evs))"
proof (cases "not_serializable_list (planned_data evs)")
  case None
  assume "t \<noteq> ''error''"
  with None show ?thesis
    by (simp add: emitted_data_def frames_of_type_append frames_of_type_error_data
          takeWhile_serializable frames_of_type_simps(1) split: option.splits ending.splits)
next
  case (Some ty)
  assume "t \<noteq> ''error''"
  with Some show ?thesis
    by (simp add: emitted_data_def frames_of_type_append frames_of_type_error_data)
qed

lemma emitted_tool_frames_prefix:
  assumes "t \<noteq> ''error''" and "t \<noteq> ''final_response''"
  shows "prefix (frames_of_type t (emitted_data evs fin))
           (frames_of_type t (parts_data (received_parts (upto_first_final evs))))"
proof -
  have "prefix (frames_of_type t (takeWhile (\<lambda>d. not_serializable d = None) (planned_data evs)))
          (frames_of_type t (planned_data evs))"
    unfolding frames_of_type_def by (rule filter_mono_prefix) (rule takeWhile_is_prefix)
  then show ?thesis
    by (simp add: emitted_tool_frames [OF assms(1)] planned_tool_frames [OF assms(2)])
qed

lemma emitted_tool_frames_all:
  assumes "t \<noteq> ''error''" and "t \<noteq> ''final_response''"
      and "not_serializable_list (planned_data evs) = None"
  shows "frames_of_type t (emitted_data evs fin) =
           frames_of_type t (parts_data (received_parts (upto_first_final evs)))"
  by (simp add: emitted_tool_frames [OF assms(1)] planned_tool_frames [OF assms(2)]
        takeWhile_serializable [OF assms(3)])

lemma planned_serializable:
  "not_serializable_list (planned_data evs) =
   not_serializable_list (parts_data (received_parts (upto_first_final evs)))"
  by (simp add: planned_data_def not_serializable_list_append not_serializable_final_data
        split: option.splits)

lemma map_of_find:
  "map_of d k = (case find (\<lambda>kv. fst kv = k) d of Some kv \<Rightarrow> Some (snd kv) | None \<Rightarrow> None)"
  by (induction d) auto

lemma formatted_response_data_kept: "formatted_response_data p = payload_kept p"
  by (cases p) (simp_all add: formatted_response_data_def payload_kept_def map_of_find
       split: option.splits)

lemma data_tool_responses:
  "map (dict_field ''response'') (frames_of_type ''tool_response'' (parts_data ps)) =
   map (\<lambda>fr. Some (payload_kept (fr_response fr))) (function_responses ps)"
  by (induction ps)
     (simp_all add: parts_data_simps part_data_def frames_of_type_simps function_responses_simps
        dict_field_def formatted_response_data_kept split: option.splits)

lemma data_tool_calls:
  "map (dict_field ''arguments'') (frames_of_type ''tool_call'' (parts_data ps)) =
   map (\<lambda>fc. Some (model_dump_exclude_none fc)) (function_calls ps)"
  by (induction ps)
     (simp_all add: parts_data_simps part_data_def frames_of_type_simps function_calls_simps
        dict_field_def split: option.splits)

lemma dict_entry_smaller: "(k, v) \<in> set a \<Longrightarrow> size v < size (JDict a)"
  by (induction a) auto

lemma dict_not_own_entry: "(k, JDict a) \<notin> set a"
  using dict_entry_smaller by fastforce

section \<open>Unfolding the examples\<close>

lemmas ex_defs =
  ex_run_def ex_failing_run_def ex_unfinished_run_def ex_cancelled_run_def ex_bytes_run_def
  ex_call_event_def ex_result_event_def ex_bytes_event_def ex_final_event_def
  ex_tool_escalation_event_def ex_escalation_event_def content_event_def
  call_part_def result_part_def text_part_def ex_call_def ex_result_def ex_plain_result_def
  ex_bytes_result_def runtime_error_def cancelled_error_def ex_request_def
  ex_call_data_def ex_result_data_def ex_call_record_def ex_result_record_def

lemmas run_defs =
  fixed_runner_def has_parts_def parts_of_def escalates_def error_message_or_default_def
  final_response_text_def tool_call_def tool_response_def model_dump_exclude_none_def
  formatted_response_data_def opt_str_def final_data_def error_data_def

lemmas list_defs =
  upto_first_final_def received_parts_def function_calls_def function_responses_def
  frames_of_type_def dict_field_def payload_kept_def all_text_def parts_data_def part_data_def
  planned_data_def emitted_data_def type_error_def

section \<open>The aggregated reply of \<open>/chat\<close>\<close>

lemma chat_returns:
  assumes "run_async USER_ID SESSION_ID (new_message (message request)) = (evs, fin)"
      and "fin = Exhausted \<or> (\<exists>e\<in>set evs. ev_is_final_response e)"
  shows "chat run_async request =
           (Inr \<lparr>cr_response = (case find ev_is_final_response evs of
                                   None \<Rightarrow> [] | Some f \<Rightarrow> final_response_text f),
                 cr_tool_calls =
                   Some (map tool_call (function_calls (received_parts (upto_first_final evs)))),
                 cr_tool_responses =
                   Some (map tool_response
                           (function_responses (received_parts (upto_first_final evs))))\<rparr>,
            [])"
  by (simp add: chat_def agent_returns [where run_async = run_async, OF assms])

text \<open>
  Claim C1. Whenever the runner's iterator reaches a final-flagged event or is exhausted,
  the \<open>/chat\<close> endpoint answers, and the \<open>tool_calls\<close> and \<open>tool_responses\<close> of its response
  are, in arrival order, one record for each function-call part and one record for each
  function-response part of the events up to and including the first final-flagged
  event; they are the lists that \<open>get_response_from_agent\<close> returned. When the sequence
  splits into events without the flag, a flagged event and a rest, these events are
  exactly the first two pieces: nothing of the rest is reflected.
\<close>

theorem chat_tool_lists_reflect_events:
  assumes "run_async USER_ID SESSION_ID (new_message (message request)) = (evs, fin)"
      and "fin = Exhausted \<or> (\<exists>e\<in>set evs. ev_is_final_response e)"
  shows "\<exists>r a. fst (chat run_async request) = Inr r
           \<and> cr_tool_calls r =
               Some (map tool_call (function_calls (received_parts (upto_first_final evs))))
           \<and> cr_tool_responses r =
               Some (map tool_response (function_responses (received_parts (upto_first_final evs))))
           \<and> fst (get_response_from_agent run_async (message request)) = Inr a
           \<and> cr_tool_calls r = Some (tool_calls a)
           \<and> cr_tool_responses r = Some (tool_responses a)
           \<and> (\<forall>pre f post. evs = pre @ f # post \<and> ev_is_final_response f
                  \<and> (\<forall>e\<in>set pre. \<not> ev_is_final_response e)
                \<longrightarrow> upto_first_final evs = pre @ [f])"
  by (simp add: chat_returns [where run_async = run_async, OF assms]
        agent_returns [where run_async = run_async, OF assms] upto_first_final_split)

theorem chat_tool_lists_reflect_events_witness:
  "fst (chat (fixed_runner ex_run) ex_request) =
     Inr \<lparr>cr_response = ''Sunny in Paris'',
          cr_tool_calls = Some [ex_call_record],
          cr_tool_responses = Some [ex_result_record]\<rparr>
   \<and> upto_first_final (fst ex_run) = [ex_call_event, ex_result_event, ex_final_event]"
proof -
  have run: "fixed_runner ex_run USER_ID SESSION_ID (new_message (message ex_request)) =
               (fst ex_run, snd ex_run)"
    by (simp add: fixed_runner_def)
  have fin: "snd ex_run = Exhausted \<or> (\<exists>e\<in>set (fst ex_run). ev_is_final_response e)"
    by (simp add: ex_defs)
  have split: "fst ex_run = [ex_call_event, ex_result_event] @ ex_final_event # [ex_call_event]
                 \<and> ev_is_final_response ex_final_event
                 \<and> (\<forall>e\<in>set [ex_call_event, ex_result_event]. \<not> ev_is_final_response e)"
    by (simp add: ex_defs)
  from chat_tool_lists_reflect_events
         [where run_async = "fixed_runner ex_run" and request = ex_request, OF run fin]
  obtain r where r: "fst (chat (fixed_runner ex_run) ex_request) = Inr r"
      "cr_tool_calls r =
         Some (map tool_call (function_calls (received_parts (upto_first_final (fst ex_run)))))"
      "cr_tool_responses r =
         Some (map tool_response
                 (function_responses (received_parts (upto_first_final (fst ex_run)))))"
      "\<forall>pre f post. fst ex_run = pre @ f # post \<and> ev_is_final_response f
            \<and> (\<forall>e\<in>set pre. \<not> ev_is_final_response e)
          \<longrightarrow> upto_first_final (fst ex_run) = pre @ [f]"
    by blast
  from r(4) split
  have upto: "upto_first_final (fst ex_run) = [ex_call_event, ex_result_event] @ [ex_final_event]"
    by blast
  have "cr_tool_calls r = Some [ex_call_record]"
    by (simp add: r(2) upto) (simp add: list_defs ex_defs run_defs)
  moreover have "cr_tool_responses r = Some [ex_result_record]"
    by (simp add: r(3) upto) (simp add: list_defs ex_defs run_defs)
  moreover have "cr_response r = ''Sunny in Paris''"
    using r(1) by (auto simp: chat_def get_response_from_agent_def ex_defs run_defs)
  ultimately have "r = \<lparr>cr_response = ''Sunny in Paris'', cr_tool_calls = Some [ex_call_record],
                        cr_tool_responses = Some [ex_result_record]\<rparr>"
    by (cases r) simp
  with r(1) upto show ?thesis by simp
qed

text \<open>
  Claim C2, amended. The reply text of the \<open>/chat\<close> response is determined by the first
  final-flagged event: if that event has a non-empty list of content parts, the reply is
  the text of those parts concatenated in order, which is empty when no part has text,
  whether or not an escalation is signalled; otherwise, if it signals an escalation, the
  reply is \<open>Agent escalated: \<close> followed by the error message, or by \<open>No specific message.\<close>
  when the message is absent or empty; otherwise the reply is empty.
\<close>

theorem chat_reply_of_first_final:
  assumes "run_async USER_ID SESSION_ID (new_message (message request)) = (pre @ f # post, fin)"
      and "\<forall>e\<in>set pre. \<not> ev_is_final_response e"
      and "ev_is_final_response f"
  shows "\<exists>r. fst (chat run_async request) = Inr r \<and>
           cr_response r =
             (if parts_of f \<noteq> [] then all_text (parts_of f)
              else if escalates f then
                (case ev_error_message f of
                   None \<Rightarrow> ''Agent escalated: No specific message.''
                 | Some m \<Rightarrow> if m = [] then ''Agent escalated: No specific message.''
                             else ''Agent escalated: '' @ m)
              else [])"
proof -
  have found: "find ev_is_final_response (pre @ f # post) = Some f"
    using assms(2,3) by (rule find_final_split)
  have "fin = Exhausted \<or> (\<exists>e\<in>set (pre @ f # post). ev_is_final_response e)"
    using assms(3) by simp
  from chat_returns [where run_async = run_async, OF assms(1) this] found show ?thesis
    by (simp add: final_response_text_def has_parts_iff concat_texts
          error_message_or_default_def split: option.splits)
qed

theorem chat_reply_of_first_final_witness:
  "\<exists>r. fst (chat (fixed_runner ([ex_call_event] @ ex_escalation_event # [ex_final_event], Exhausted))
              ex_request) = Inr r
       \<and> cr_response r = ''Agent escalated: No specific message.''"
proof -
  have run: "fixed_runner ([ex_call_event] @ ex_escalation_event # [ex_final_event], Exhausted)
               USER_ID SESSION_ID (new_message (message ex_request)) =
             ([ex_call_event] @ ex_escalation_event # [ex_final_event], Exhausted)"
    by (simp add: fixed_runner_def)
  have nf: "\<forall>e\<in>set [ex_call_event]. \<not> ev_is_final_response e"
    by (simp add: ex_defs)
  have fin: "ev_is_final_response ex_escalation_event"
    by (simp add: ex_defs)
  show ?thesis
    using chat_reply_of_first_final
            [where run_async =
               "fixed_runner ([ex_call_event] @ ex_escalation_event # [ex_final_event], Exhausted)"
               and request = ex_request, OF run nf fin]
    by (simp add: ex_escalation_event_def escalates_def parts_of_def)
qed

text \<open>
  Claim C2 as stated fails on a final event whose only part is a tool result and which
  signals an escalation without an error message: it carries no textual part, so the
  stated rule gives \<open>Agent escalated: No specific message.\<close>, while the \<open>/chat\<close> response has
  the empty string as its reply.
\<close>

theorem chat_reply_escalation_counterexample:
  "ev_is_final_response ex_tool_escalation_event
   \<and> \<not> carries_text ex_tool_escalation_event
   \<and> escalates ex_tool_escalation_event
   \<and> ev_error_message ex_tool_escalation_event = None
   \<and> reply_by_text_then_escalation ex_tool_escalation_event =
       ''Agent escalated: No specific message.''
   \<and> chat (fixed_runner ([ex_tool_escalation_event], Exhausted)) ex_request =
       (Inr \<lparr>cr_response = [], cr_tool_calls = Some [],
             cr_tool_responses = Some [JDict [(''name'', JStr ''exit_loop''),
                                              (''response'', JDict [(''status'', JStr ''done'')])]]\<rparr>,
        [])"
  by (simp add: chat_def get_response_from_agent_def reply_by_text_then_escalation_def
        carries_text_def ex_defs run_defs)

text \<open>
  Claim C9. When the iterator is exhausted and no event was flagged final, \<open>/chat\<close> answers
  with status 200, an empty \<open>response\<close> and the records of the whole sequence, and prints
  nothing.
\<close>

theorem chat_exhausted_without_final:
  assumes "run_async USER_ID SESSION_ID (new_message (message request)) = (evs, Exhausted)"
      and "\<forall>e\<in>set evs. \<not> ev_is_final_response e"
  shows "chat run_async request =
           (Inr \<lparr>cr_response = [],
                 cr_tool_calls = Some (map tool_call (function_calls (received_parts evs))),
                 cr_tool_responses =
                   Some (map tool_response (function_responses (received_parts evs)))\<rparr>, [])
         \<and> status_code (fst (chat run_async request)) = 200"
proof -
  from assms(2) have "find ev_is_final_response evs = None" by (simp add: find_final_None)
  then show ?thesis
    by (simp add: chat_def get_response_from_agent_def assms(1) consume_events_eq status_code_def)
qed

theorem chat_exhausted_without_final_witness:
  "chat (fixed_runner ex_unfinished_run) \<lparr>message = ''weather in Paris?''\<rparr> =
     (Inr \<lparr>cr_response = [],
           cr_tool_calls = Some [JDict [(''name'', JStr ''get_weather''),
                               (''arguments'', JDict [(''id'', JStr ''call-1''),
                                                      (''args'', JDict [(''city'', JStr ''Paris'')]),
                                                      (''name'', JStr ''get_weather'')])]],
           cr_tool_responses =
             Some [JDict [(''name'', JStr ''get_weather''), (''response'', JStr ''X'')]]\<rparr>, [])"
proof -
  have run: "fixed_runner ex_unfinished_run USER_ID SESSION_ID
               (new_message (message \<lparr>message = ''weather in Paris?''\<rparr>)) =
               ([ex_call_event, ex_result_event], Exhausted)"
    by (simp add: fixed_runner_def ex_unfinished_run_def)
  have nf: "\<forall>e\<in>set [ex_call_event, ex_result_event]. \<not> ev_is_final_response e"
    by (simp add: ex_defs)
  show ?thesis
    using chat_exhausted_without_final
            [where run_async = "fixed_runner ex_unfinished_run"
               and request = "\<lparr>message = ''weather in Paris?''\<rparr>", OF run nf]
    by (simp add: received_parts_def function_calls_def function_responses_def
          ex_defs run_defs)
qed

text \<open>
  Claim C5, amended. When the iterator (or the invocation) raises before a final-flagged
  event was received and the exception is an instance of \<open>Exception\<close>, \<open>/chat\<close> prints one
  line and answers with an \<open>HTTPException\<close> of status 500 whose detail ends with the text of
  the exception. An exception that is not an instance of \<open>Exception\<close> is not caught: it
  leaves the endpoint as it is. In both cases the outcome holds no reply and no tool
  record.
\<close>

theorem chat_exception_gives_500:
  assumes "run_async USER_ID SESSION_ID (new_message (message request)) = (evs, Raises e)"
      and "\<forall>ev\<in>set evs. \<not> ev_is_final_response ev"
  shows "chat run_async request =
           (if exc_is_Exception e
            then (Inl (HTTPException 500 (''Error processing request: '' @ exc_str e)),
                  [''Error in get_response_from_agent (Type: '' @ exc_type e @ ''): '' @ exc_str e])
            else (Inl (Uncaught e), []))
         \<and> (if exc_is_Exception e then status_code (fst (chat run_async request)) = 500
            else fst (chat run_async request) = Inl (Uncaught e))"
  by (simp add: chat_def status_code_def agent_raises [where run_async = run_async, OF assms])

theorem chat_exception_gives_500_witness:
  "chat (fixed_runner ex_failing_run) ex_request =
     (Inl (HTTPException 500 ''Error processing request: connection lost''),
      [''Error in get_response_from_agent (Type: <class 'RuntimeError'>): connection lost''])
   \<and> status_code (fst (chat (fixed_runner ex_failing_run) ex_request)) = 500"
proof -
  have run: "fixed_runner ex_failing_run USER_ID SESSION_ID (new_message (message ex_request)) =
               ([ex_call_event, ex_result_event], Raises (runtime_error ''connection lost''))"
    by (simp add: fixed_runner_def ex_failing_run_def)
  have nf: "\<forall>e\<in>set [ex_call_event, ex_result_event]. \<not> ev_is_final_response e"
    by (simp add: ex_defs)
  show ?thesis
    using chat_exception_gives_500
            [where run_async = "fixed_runner ex_failing_run" and request = ex_request, OF run nf]
    by (simp add: runtime_error_def status_code_def)
qed

text \<open>
  Claim C5 as stated fails for an exception that is not an instance of \<open>Exception\<close>: when the
  iteration is cancelled, \<open>asyncio.CancelledError\<close> passes both \<open>except Exception\<close> handlers
  and the caller receives no \<open>HTTPException\<close>.
\<close>

theorem chat_cancelled_counterexample:
  "\<not> exc_is_Exception cancelled_error
   \<and> ex_cancelled_run = ([ex_call_event, ex_result_event], Raises cancelled_error)
   \<and> \<not> ev_is_final_response ex_call_event
   \<and> \<not> ev_is_final_response ex_result_event
   \<and> chat (fixed_runner ex_cancelled_run) ex_request = (Inl (Uncaught cancelled_error), [])"
  by (simp add: chat_def get_response_from_agent_def ex_defs run_defs)

section \<open>The frames of \<open>/chat/stream\<close>\<close>

text \<open>
  Claim C3, amended. When the iterator reaches a final-flagged event or is exhausted, and
  \<open>json.dumps\<close> can serialize the dictionary of every tool call and tool result received up
  to and including the first final-flagged event, \<open>/chat/stream\<close> emits the frames of these
  dictionaries in arrival order and no error frame, and no exception leaves the
  generator. If there is a final-flagged event, exactly one \<open>final_response\<close> frame follows
  and it is the last frame, also when no tool frame precedes it. If the iterator is
  exhausted without one, the stream ends without a \<open>final_response\<close> frame.
\<close>

theorem stream_frames_in_arrival_order:
  assumes "run_async USER_ID SESSION_ID (new_message (message request)) = (evs, fin)"
      and "fin = Exhausted \<or> (\<exists>e\<in>set evs. ev_is_final_response e)"
      and "not_serializable_list (parts_data (received_parts (upto_first_final evs))) = None"
  shows "generate_stream encode run_async request =
           (map (frame encode)
              (parts_data (received_parts (upto_first_final evs)) @
               (case find ev_is_final_response evs of None \<Rightarrow> [] | Some f \<Rightarrow> [final_data f])),
            None)
         \<and> frames_of_type ''final_response''
             (parts_data (received_parts (upto_first_final evs)) @
              (case find ev_is_final_response evs of None \<Rightarrow> [] | Some f \<Rightarrow> [final_data f])) =
             (case find ev_is_final_response evs of None \<Rightarrow> [] | Some f \<Rightarrow> [final_data f])
         \<and> frames_of_type ''error''
             (parts_data (received_parts (upto_first_final evs)) @
              (case find ev_is_final_response evs of None \<Rightarrow> [] | Some f \<Rightarrow> [final_data f])) = []"
proof -
  have ser: "not_serializable_list (planned_data evs) = None"
    by (simp add: planned_serializable assms(3))
  have ending: "find ev_is_final_response evs = None \<Longrightarrow> fin = Exhausted"
    using assms(2) by (auto simp: find_final_None)
  have "generate_stream encode run_async request = (map (frame encode) (planned_data evs), None)"
    using ending
    by (simp add: generate_stream_eq [where run_async = run_async, OF assms(1)] ser
          emitted_data_def split: option.splits)
  then show ?thesis
    by (simp add: planned_data_def frames_of_type_append parts_data_no_final parts_data_no_error
          frames_of_type_final_data frames_of_type_simps(1) split: option.splits)
qed

theorem stream_frames_in_arrival_order_witness:
  "generate_stream type_tag (fixed_runner ex_run) ex_request =
     (map (frame type_tag)
        [ex_call_data, ex_result_data,
         JDict [(''type'', JStr ''final_response''), (''response'', JStr ''Sunny in Paris'')]],
      None)"
proof -
  have run: "fixed_runner ex_run USER_ID SESSION_ID (new_message (message ex_request)) =
             (fst ex_run, snd ex_run)"
    by (simp add: fixed_runner_def)
  have fin: "snd ex_run = Exhausted \<or> (\<exists>e\<in>set (fst ex_run). ev_is_final_response e)"
    by (simp add: ex_defs)
  have ser: "not_serializable_list (parts_data (received_parts (upto_first_final (fst ex_run)))) =
               None"
    by (simp add: list_defs ex_defs run_defs)
  show ?thesis
    using stream_frames_in_arrival_order
            [where run_async = "fixed_runner ex_run" and request = ex_request
               and encode = type_tag, OF run fin ser]
    by (simp add: list_defs ex_defs run_defs)
qed

text \<open>
  Claim C3 as stated fails when the iterator is exhausted without a final-flagged event:
  the stream is the two tool frames and has no \<open>final_response\<close> frame.
\<close>

theorem stream_without_final_counterexample:
  "ex_unfinished_run = ([ex_call_event, ex_result_event], Exhausted)
   \<and> generate_stream type_tag (fixed_runner ex_unfinished_run) ex_request =
       (map (frame type_tag) [ex_call_data, ex_result_data], None)
   \<and> frames_of_type ''final_response'' [ex_call_data, ex_result_data] = []"
  by (simp add: generate_stream_def yield_frame_def json_dumps_def frame_def
        frames_of_type_def dict_field_def ex_defs run_defs)

text \<open>
  A tool result that \<open>json.dumps\<close> cannot serialize also ends the stream without a
  \<open>final_response\<close> frame: the \<open>TypeError\<close> is caught and reported in an \<open>error\<close> frame, and the
  final-flagged event that the iterator would yield next is never received.
\<close>

lemma stream_unserializable_example:
  "generate_stream type_tag (fixed_runner ex_bytes_run) ex_request =
     (map (frame type_tag)
        [ex_call_data,
         JDict [(''type'', JStr ''error''),
                (''error'', JStr ''Object of type bytes is not JSON serializable'')]],
      None)"
  by (simp add: generate_stream_def yield_frame_def json_dumps_def frame_def type_error_def
        ex_defs run_defs)

text \<open>
  Claim C6, amended. When the iterator (or the invocation) raises before a final-flagged
  event was received, after frames that could all be serialized, and the exception is
  an instance of \<open>Exception\<close>, \<open>/chat/stream\<close> emits the frames of the parts received so far
  and then one \<open>error\<close> frame that carries the text of the exception. It is the only \<open>error\<close>
  frame and the last frame, there is no \<open>final_response\<close> frame, and no exception leaves the
  generator. An exception that is not an instance of \<open>Exception\<close> is not caught: after the
  frames of the parts received so far it leaves the generator, and no \<open>error\<close> frame is
  emitted.
\<close>

theorem stream_exception_gives_error_frame:
  assumes "run_async USER_ID SESSION_ID (new_message (message request)) = (evs, Raises e)"
      and "\<forall>ev\<in>set evs. \<not> ev_is_final_response ev"
      and "not_serializable_list (parts_data (received_parts evs)) = None"
  shows "generate_stream encode run_async request =
           (if exc_is_Exception e
            then (map (frame encode) (parts_data (received_parts evs) @ [error_data (exc_str e)]),
                  None)
            else (map (frame encode) (parts_data (received_parts evs)), Some e))
         \<and> frames_of_type ''error'' (parts_data (received_parts evs) @ [error_data (exc_str e)]) =
             [error_data (exc_str e)]
         \<and> frames_of_type ''final_response''
             (parts_data (received_parts evs) @ [error_data (exc_str e)]) = []
         \<and> frames_of_type ''error'' (parts_data (received_parts evs)) = []
         \<and> dict_field ''error'' (error_data (exc_str e)) = Some (JStr (exc_str e))"
proof -
  from assms(2) have nf: "find ev_is_final_response evs = None" by (simp add: find_final_None)
  have upto: "upto_first_final evs = evs"
    using assms(2) by (rule upto_first_final_no_final)
  have planned: "planned_data evs = parts_data (received_parts evs)"
    by (simp add: planned_data_def nf upto)
  have "generate_stream encode run_async request =
           (if exc_is_Exception e
            then (map (frame encode) (parts_data (received_parts evs) @ [error_data (exc_str e)]),
                  None)
            else (map (frame encode) (parts_data (received_parts evs)), Some e))"
    by (simp add: generate_stream_eq [where run_async = run_async, OF assms(1)] planned assms(3)
          nf emitted_data_def)
  then show ?thesis
    by (simp add: frames_of_type_append parts_data_no_error parts_data_no_final
          frames_of_type_error_data)
       (simp add: error_data_def dict_field_def)
qed

theorem stream_exception_gives_error_frame_witness:
  "generate_stream type_tag (fixed_runner ex_failing_run) ex_request =
     (map (frame type_tag)
        [ex_call_data, ex_result_data,
         JDict [(''type'', JStr ''error''), (''error'', JStr ''connection lost'')]],
      None)"
proof -
  have run: "fixed_runner ex_failing_run USER_ID SESSION_ID (new_message (message ex_request)) =
             ([ex_call_event, ex_result_event], Raises (runtime_error ''connection lost''))"
    by (simp add: fixed_runner_def ex_failing_run_def)
  have nf: "\<forall>e\<in>set [ex_call_event, ex_result_event]. \<not> ev_is_final_response e"
    by (simp add: ex_defs)
  have ser: "not_serializable_list (parts_data (received_parts [ex_call_event, ex_result_event])) =
               None"
    by (simp add: list_defs ex_defs run_defs)
  show ?thesis
    using stream_exception_gives_error_frame
            [where run_async = "fixed_runner ex_failing_run" and request = ex_request
               and encode = type_tag, OF run nf ser]
    by (simp add: list_defs ex_defs run_defs)
qed

text \<open>
  Claim C6 as stated fails for an exception that is not an instance of \<open>Exception\<close>: when the
  iteration is cancelled, \<open>asyncio.CancelledError\<close> leaves the generator after the two tool
  frames and no \<open>error\<close> frame is emitted.
\<close>

theorem stream_cancelled_counterexample:
  "\<not> exc_is_Exception cancelled_error
   \<and> ex_cancelled_run = ([ex_call_event, ex_result_event], Raises cancelled_error)
   \<and> generate_stream type_tag (fixed_runner ex_cancelled_run) ex_request =
       (map (frame type_tag) [ex_call_data, ex_result_data], Some cancelled_error)
   \<and> frames_of_type ''error'' [ex_call_data, ex_result_data] = []"
  by (simp add: generate_stream_def yield_frame_def json_dumps_def frame_def
        frames_of_type_def dict_field_def ex_defs run_defs)

section \<open>The records of tool calls and tool results\<close>

text \<open>
  Claim C4. For every function-response part processed by \<open>/chat/stream\<close> or \<open>/chat\<close>, the
  recorded \<open>response\<close> is the value under the key \<open>response\<close> when the payload is a mapping
  with that key, and the whole payload otherwise. In the stream this holds of every
  \<open>tool_response\<close> frame that is emitted: they belong to the function-response parts
  received, in order, and to all of them when every frame can be serialized. The payload
  \<open>{"response": "X", "other": "Y"}\<close> is recorded as \<open>"X"\<close>.
\<close>

theorem tool_response_value_is_nested_response:
  assumes "run_async USER_ID SESSION_ID (new_message (message request)) = (evs, fin)"
  shows "fst (generate_stream encode run_async request) = map (frame encode) (emitted_data evs fin)
       \<and> prefix
           (map (dict_field ''response'') (frames_of_type ''tool_response'' (emitted_data evs fin)))
           (map (\<lambda>fr. Some (payload_kept (fr_response fr)))
              (function_responses (received_parts (upto_first_final evs))))
       \<and> (not_serializable_list (planned_data evs) = None \<longrightarrow>
            map (dict_field ''response'') (frames_of_type ''tool_response'' (emitted_data evs fin)) =
            map (\<lambda>fr. Some (payload_kept (fr_response fr)))
              (function_responses (received_parts (upto_first_final evs))))
       \<and> (fin = Exhausted \<or> (\<exists>e\<in>set evs. ev_is_final_response e) \<longrightarrow>
            (\<exists>r c. fst (get_response_from_agent run_async (message request)) = Inr r \<and>
                 map (dict_field ''response'') (tool_responses r) =
                 map (\<lambda>fr. Some (payload_kept (fr_response fr)))
                   (function_responses (received_parts (upto_first_final evs))) \<and>
                 fst (chat run_async request) = Inr c \<and>
                 cr_tool_responses c = Some (tool_responses r)))
       \<and> payload_kept (JDict [(''response'', JStr ''X''), (''other'', JStr ''Y'')]) = JStr ''X''"
proof -
  have tr: "dict_field ''response'' \<circ> tool_response = (\<lambda>fr. Some (payload_kept (fr_response fr)))"
    by (rule ext) (simp add: tool_response_def dict_field_def formatted_response_data_kept)
  have pre: "prefix
           (map (dict_field ''response'') (frames_of_type ''tool_response'' (emitted_data evs fin)))
           (map (\<lambda>fr. Some (payload_kept (fr_response fr)))
              (function_responses (received_parts (upto_first_final evs))))"
    using map_mono_prefix [OF emitted_tool_frames_prefix
            [where t = "''tool_response''" and evs = evs and fin = fin],
            where f = "dict_field ''response''"]
    by (simp add: data_tool_responses)
  have all: "map (dict_field ''response'') (frames_of_type ''tool_response'' (emitted_data evs fin)) =
            map (\<lambda>fr. Some (payload_kept (fr_response fr)))
              (function_responses (received_parts (upto_first_final evs)))"
    if "not_serializable_list (planned_data evs) = None"
    using that by (simp add: emitted_tool_frames_all data_tool_responses)
  show ?thesis
    using pre all
    by (simp add: generate_stream_eq [where run_async = run_async, OF assms]
          agent_returns [where run_async = run_async and msg = "message request", OF assms]
          chat_returns [where run_async = run_async, OF assms] tr)
       (simp add: payload_kept_def)
qed

theorem tool_response_value_is_nested_response_witness:
  "map (dict_field ''response'')
     (frames_of_type ''tool_response'' (emitted_data (fst ex_run) (snd ex_run))) =
   [Some (JStr ''X'')]
   \<and> fst (generate_stream type_tag (fixed_runner ex_run) ex_request) =
       map (frame type_tag) (emitted_data (fst ex_run) (snd ex_run))
   \<and> emitted_data (fst ex_run) (snd ex_run) =
       [ex_call_data, ex_result_data,
        JDict [(''type'', JStr ''final_response''), (''response'', JStr ''Sunny in Paris'')]]
   \<and> (\<exists>r. fst (get_response_from_agent (fixed_runner ex_run) (message ex_request)) = Inr r \<and>
           map (dict_field ''response'') (tool_responses r) = [Some (JStr ''X'')])"
proof -
  have run: "fixed_runner ex_run USER_ID SESSION_ID (new_message (message ex_request)) =
             (fst ex_run, snd ex_run)"
    by (simp add: fixed_runner_def)
  have fin: "snd ex_run = Exhausted \<or> (\<exists>e\<in>set (fst ex_run). ev_is_final_response e)"
    by (simp add: ex_defs)
  have ser: "not_serializable_list (planned_data (fst ex_run)) = None"
    by (simp add: list_defs ex_defs run_defs)
  have resp: "map (\<lambda>fr. Some (payload_kept (fr_response fr)))
                (function_responses (received_parts (upto_first_final (fst ex_run)))) =
              [Some (JStr ''X'')]"
    by (simp add: list_defs ex_defs parts_of_def)
  have emitted: "emitted_data (fst ex_run) (snd ex_run) =
       [ex_call_data, ex_result_data,
        JDict [(''type'', JStr ''final_response''), (''response'', JStr ''Sunny in Paris'')]]"
    by (simp add: list_defs ex_defs run_defs)
  show ?thesis
    using tool_response_value_is_nested_response
            [where run_async = "fixed_runner ex_run" and request = ex_request
               and encode = type_tag, OF run] fin ser emitted
    by (auto simp: resp)
qed

text \<open>
  Claim C10. For every function-call part processed by \<open>/chat/stream\<close> or \<open>/chat\<close>, the
  recorded \<open>arguments\<close> is the dump of the whole function-call object without its \<open>None\<close>
  fields: it holds the identifier, the argument mapping and the name, each when set, and
  so differs from the argument mapping alone. In the stream this holds of every
  \<open>tool_call\<close> frame that is emitted: they belong to the function-call parts received, in
  order, and to all of them when every frame can be serialized.
\<close>

theorem tool_call_arguments_dump_whole_call:
  assumes "run_async USER_ID SESSION_ID (new_message (message request)) = (evs, fin)"
  shows "fst (generate_stream encode run_async request) = map (frame encode) (emitted_data evs fin)
       \<and> prefix
           (map (dict_field ''arguments'') (frames_of_type ''tool_call'' (emitted_data evs fin)))
           (map (\<lambda>fc. Some (model_dump_exclude_none fc))
              (function_calls (received_parts (upto_first_final evs))))
       \<and> (not_serializable_list (planned_data evs) = None \<longrightarrow>
            map (dict_field ''arguments'') (frames_of_type ''tool_call'' (emitted_data evs fin)) =
            map (\<lambda>fc. Some (model_dump_exclude_none fc))
              (function_calls (received_parts (upto_first_final evs))))
       \<and> (fin = Exhausted \<or> (\<exists>e\<in>set evs. ev_is_final_response e) \<longrightarrow>
            (\<exists>r c. fst (get_response_from_agent run_async (message request)) = Inr r \<and>
                 map (dict_field ''arguments'') (tool_calls r) =
                 map (\<lambda>fc. Some (model_dump_exclude_none fc))
                   (function_calls (received_parts (upto_first_final evs))) \<and>
                 fst (chat run_async request) = Inr c \<and>
                 cr_tool_calls c = Some (tool_calls r)))
       \<and> (\<forall>fc. dict_field ''id'' (model_dump_exclude_none fc) = map_option JStr (fc_id fc)
              \<and> dict_field ''args'' (model_dump_exclude_none fc) = map_option JDict (fc_args fc)
              \<and> dict_field ''name'' (model_dump_exclude_none fc) = map_option JStr (fc_name fc)
              \<and> (\<forall>a. fc_args fc = Some a \<longrightarrow> model_dump_exclude_none fc \<noteq> JDict a))"
proof -
  have tc: "dict_field ''arguments'' \<circ> tool_call = (\<lambda>fc. Some (model_dump_exclude_none fc))"
    by (rule ext) (simp add: tool_call_def dict_field_def)
  have own: "model_dump_exclude_none fc \<noteq> JDict a" if "fc_args fc = Some a" for fc a
  proof
    assume eq: "model_dump_exclude_none fc = JDict a"
    from that obtain l where "model_dump_exclude_none fc = JDict l" "(''args'', JDict a) \<in> set l"
      by (auto simp: model_dump_exclude_none_def split: option.splits)
    with eq have "(''args'', JDict a) \<in> set a" by simp
    then show False by (simp add: dict_not_own_entry)
  qed
  have fields: "dict_field ''id'' (model_dump_exclude_none fc) = map_option JStr (fc_id fc)
              \<and> dict_field ''args'' (model_dump_exclude_none fc) = map_option JDict (fc_args fc)
              \<and> dict_field ''name'' (model_dump_exclude_none fc) = map_option JStr (fc_name fc)" for fc
    by (simp add: model_dump_exclude_none_def dict_field_def split: option.splits)
  have pre: "prefix
           (map (dict_field ''arguments'') (frames_of_type ''tool_call'' (emitted_data evs fin)))
           (map (\<lambda>fc. Some (model_dump_exclude_none fc))
              (function_calls (received_parts (upto_first_final evs))))"
    using map_mono_prefix [OF emitted_tool_frames_prefix
            [where t = "''tool_call''" and evs = evs and fin = fin],
            where f = "dict_field ''arguments''"]
    by (simp add: data_tool_calls)
  have all: "map (dict_field ''arguments'') (frames_of_type ''tool_call'' (emitted_data evs fin)) =
            map (\<lambda>fc. Some (model_dump_exclude_none fc))
              (function_calls (received_parts (upto_first_final evs)))"
    if "not_serializable_list (planned_data evs) = None"
    using that by (simp add: emitted_tool_frames_all data_tool_calls)
  show ?thesis
    using own fields pre all
    by (simp add: generate_stream_eq [where run_async = run_async, OF assms]
          agent_returns [where run_async = run_async and msg = "message request", OF assms]
          chat_returns [where run_async = run_async, OF assms] tc)
qed

theorem tool_call_arguments_dump_whole_call_witness:
  "map (dict_field ''arguments'')
     (frames_of_type ''tool_call'' (emitted_data (fst ex_run) (snd ex_run))) =
   [Some (JDict [(''id'', JStr ''call-1''), (''args'', JDict [(''city'', JStr ''Paris'')]),
                 (''name'', JStr ''get_weather'')])]
   \<and> fst (generate_stream type_tag (fixed_runner ex_run) ex_request) =
       map (frame type_tag) (emitted_data (fst ex_run) (snd ex_run))
   \<and> (\<exists>r. fst (get_response_from_agent (fixed_runner ex_run) (message ex_request)) = Inr r \<and>
           map (dict_field ''arguments'') (tool_calls r) =
           [Some (JDict [(''id'', JStr ''call-1''), (''args'', JDict [(''city'', JStr ''Paris'')]),
                         (''name'', JStr ''get_weather'')])])
   \<and> model_dump_exclude_none ex_call \<noteq> JDict [(''city'', JStr ''Paris'')]"
proof -
  have run: "fixed_runner ex_run USER_ID SESSION_ID (new_message (message ex_request)) =
             (fst ex_run, snd ex_run)"
    by (simp add: fixed_runner_def)
  have fin: "snd ex_run = Exhausted \<or> (\<exists>e\<in>set (fst ex_run). ev_is_final_response e)"
    by (simp add: ex_defs)
  have ser: "not_serializable_list (planned_data (fst ex_run)) = None"
    by (simp add: list_defs ex_defs run_defs)
  have args: "fc_args ex_call = Some [(''city'', JStr ''Paris'')]"
    by (simp add: ex_call_def)
  have calls: "map (\<lambda>fc. Some (model_dump_exclude_none fc))
                (function_calls (received_parts (upto_first_final (fst ex_run)))) =
              [Some (JDict [(''id'', JStr ''call-1''), (''args'', JDict [(''city'', JStr ''Paris'')]),
                            (''name'', JStr ''get_weather'')])]"
    by (simp add: list_defs ex_defs parts_of_def model_dump_exclude_none_def)
  show ?thesis
    using tool_call_arguments_dump_whole_call
            [where run_async = "fixed_runner ex_run" and request = ex_request
               and encode = type_tag, OF run] fin ser args
    by (auto simp: calls)
qed

section \<open>Health check and startup\<close>

text \<open>
  Claim C7. \<open>/health\<close> answers with status 200 and the body
  \<open>{status: "healthy", service: "a2a-host-agent", version: "1.0.0"}\<close>; it takes no input,
  reads no state and prints nothing.
\<close>

theorem health_check_constant:
  "health_check =
     (Inr \<lparr>status = ''healthy'', service = ''a2a-host-agent'', version = ''1.0.0''\<rparr>, [])
   \<and> status_code (fst health_check) = 200"
  by (simp add: health_check_def status_code_def)

text \<open>
  Claim C8. The startup handler returns normally whatever \<open>create_session\<close> does; when
  session creation raises, the handler prints the exception instead of propagating it.
\<close>

theorem startup_event_never_raises:
  "fst (startup_event create_session) = Inr ()
   \<and> snd (startup_event create_session) =
       ''Creating ADK session...'' #
       (case create_session APP_NAME USER_ID SESSION_ID of
          None \<Rightarrow> [''ADK session created successfully.'']
        | Some e \<Rightarrow> [''Error creating ADK session: '' @ e])"
  by (simp add: startup_event_def split: option.splits)

end
